theory Spec2Isabelle
  imports Main "HOL-Library.Word" "HOL-Library.Multiset"
begin

section \<open>Data model of VideoCommon/VideoConfig.h\<close>

text \<open>
  The C++ scalar types of the structure. An \<open>int\<close> field is only stored, copied and
  compared here, never computed on, so it is kept as a mathematical integer; \<open>u32\<close> is
  a 32-bit word; a \<open>float\<close> is kept as its 32-bit IEEE-754 pattern, since the
  configuration store only copies it.
\<close>

type_synonym u32 = "32 word"
type_synonym float = "32 word"

text \<open>
  \<open>API_TYPE\<close> is declared in VideoCommon/VideoCommon.h; the backend of main.cpp
  stores \<open>API_OPENGL\<close>.
\<close>

datatype API_TYPE = API_OPENGL | API_D3D | API_NONE

text \<open>
  The anonymous structure \<open>backend_info\<close> (VideoConfig.h, lines 177-193). The first
  twelve fields are the ones the header declares. The remaining seven are written by
  \<open>VideoBackend::InitBackendInfo\<close> in main.cpp (lines 115-133), so the structure that
  main.cpp is compiled against has them. main.cpp stores the integers 1, 2, 4, 8 into
  \<open>AAModes\<close>, so its elements are integers.
\<close>

record backend_info_t =
  APIType :: API_TYPE
  Adapters :: "string list"
  AAModes :: "int list"
  PPShaders :: "string list"
  bUseMinimalMipCount :: bool
  bSupportsExclusiveFullscreen :: bool
  bSupportsDualSourceBlend :: bool
  bSupportsPrimitiveRestart :: bool
  bSupportsOversizedViewports :: bool
  bSupportsEarlyZ :: bool
  bSupportsBindingLayout :: bool
  bSupportsBBox :: bool
  bSupportsGeometryShaders :: bool
  bSupports3DVision :: bool
  bSupportsPostProcessing :: bool
  bSupportsSSAA :: bool
  bSupportsPaletteConversion :: bool
  bSupportsClipControl :: bool
  AnaglyphShaders :: "string list"

text \<open>
  \<open>struct VideoConfig\<close> (VideoConfig.h, lines 48-201), field by field in the order of
  the header. \<open>iPhackvalue[3]\<close> and \<open>sPhackvalue[2]\<close> are fixed-size arrays and
  become tuples.
\<close>

record VideoConfig =
  bVSync :: bool
  bFullscreen :: bool
  bRunning :: bool
  bWidescreenHack :: bool
  iAspectRatio :: int
  bCrop :: bool
  bUseXFB :: bool
  bUseRealXFB :: bool
  iMultisampleMode :: int
  iEFBScale :: int
  bForceFiltering :: bool
  iMaxAnisotropy :: int
  sPostProcessingShader :: string
  bShowFPS :: bool
  bOverlayStats :: bool
  bOverlayProjStats :: bool
  bTexFmtOverlayEnable :: bool
  bTexFmtOverlayCenter :: bool
  bShowEFBCopyRegions :: bool
  bLogRenderTimeToFile :: bool
  bWireFrame :: bool
  bDstAlphaPass :: bool
  bDisableFog :: bool
  bDumpTextures :: bool
  bHiresTextures :: bool
  bDumpEFBTarget :: bool
  bUseFFV1 :: bool
  bFreeLook :: bool
  bAnaglyphStereo :: bool
  iAnaglyphStereoSeparation :: int
  iAnaglyphFocalAngle :: int
  bBorderlessFullscreen :: bool
  bEFBAccessEnable :: bool
  bPerfQueriesEnable :: bool
  bEFBCopyEnable :: bool
  bEFBCopyClearDisable :: bool
  bEFBCopyCacheEnable :: bool
  bEFBEmulateFormatChanges :: bool
  bCopyEFBToTexture :: bool
  bCopyEFBScaled :: bool
  iSafeTextureCache_ColorSamples :: int
  iPhackvalue :: "int \<times> int \<times> int"
  sPhackvalue :: "string \<times> string"
  fAspectRatioHackW :: float
  fAspectRatioHackH :: float
  bEnablePixelLighting :: bool
  bFastDepthCalc :: bool
  iLog :: int
  iSaveTargetId :: int
  fScale :: float
  fLeanBackAngle :: float
  bAsynchronousTimewarp :: bool
  bEnableVR :: bool
  bLowPersistence :: bool
  bDynamicPrediction :: bool
  bOrientationTracking :: bool
  bMagYawCorrection :: bool
  bPositionTracking :: bool
  bChromatic :: bool
  bTimewarp :: bool
  bVignette :: bool
  bNoRestore :: bool
  bFlipVertical :: bool
  bSRGB :: bool
  bOverdrive :: bool
  bHqDistortion :: bool
  iVRPlayer :: int
  iMinExtraFrames :: u32
  iMaxExtraFrames :: u32
  fUnitsPerMetre :: float
  fHudThickness :: float
  fHudDistance :: float
  fHud3DCloser :: float
  fCameraForward :: float
  fCameraPitch :: float
  fAimDistance :: float
  fScreenHeight :: float
  fScreenThickness :: float
  fScreenDistance :: float
  fScreenRight :: float
  fScreenUp :: float
  fScreenPitch :: float
  fTelescopeMaxFOV :: float
  bDisable3D :: bool
  bHudFullscreen :: bool
  bHudOnTop :: bool
  iTelescopeEye :: int
  iMetroidPrime :: int
  iSelectedLayer :: int
  iFlashState :: int
  iAdapter :: int
  bEnableShaderDebugging :: bool
  backend_info :: backend_info_t

subsection \<open>Derived queries (VideoConfig.h, lines 196-200)\<close>

definition RealXFBEnabled :: "VideoConfig \<Rightarrow> bool" where
  "RealXFBEnabled c = (bUseXFB c \<and> bUseRealXFB c)"

definition VirtualXFBEnabled :: "VideoConfig \<Rightarrow> bool" where
  "VirtualXFBEnabled c = (bUseXFB c \<and> \<not> bUseRealXFB c)"

definition EFBCopiesToTextureEnabled :: "VideoConfig \<Rightarrow> bool" where
  "EFBCopiesToTextureEnabled c = (bEFBCopyEnable c \<and> bCopyEFBToTexture c)"

definition EFBCopiesToRamEnabled :: "VideoConfig \<Rightarrow> bool" where
  "EFBCopiesToRamEnabled c = (bEFBCopyEnable c \<and> \<not> bCopyEFBToTexture c)"

definition ExclusiveFullscreenEnabled :: "VideoConfig \<Rightarrow> bool" where
  "ExclusiveFullscreenEnabled c =
     (bSupportsExclusiveFullscreen (backend_info c) \<and> \<not> bBorderlessFullscreen c)"

section \<open>Shader discovery (VideoBackends/OGL/main.cpp, lines 95-108)\<close>

text \<open>
  What the backend sees of its host: the directory \<open>File::GetUserPath(D_SHADERS_IDX)\<close>,
  the directory \<open>File::GetSysDirectory()\<close>, and the file system, which maps the path of a
  directory to the names of the files in it, or to \<open>None\<close> when there is no such
  directory.
\<close>

type_synonym filesystem = "string \<Rightarrow> string list option"

record file_env =
  user_shaders_path :: string
  sys_directory :: string
  files :: filesystem

text \<open>The path constants of Common/CommonPaths.h that main.cpp uses.\<close>

definition DIR_SEP :: string where
  "DIR_SEP = ''/''"

definition SHADERS_DIR :: string where
  "SHADERS_DIR = ''Shaders''"

definition ANAGLYPH_DIR :: string where
  "ANAGLYPH_DIR = ''Anaglyph''"

definition ends_with :: "string \<Rightarrow> string \<Rightarrow> bool" where
  "ends_with ext name =
     (length ext \<le> length name \<and> drop (length name - length ext) name = ext)"

text \<open>
  Modelled from the spec: \<open>DoFileSearch\<close> (Common/FileSearch) is not under src/. The spec
  describes it as a directory listing filtered by a fixed file extension across the given
  root directories, where a missing directory contributes zero entries. Each file found
  is reported by its path, the directory followed by the separator and the file name,
  in the order of the directories given.
\<close>

definition DoFileSearch :: "string list \<Rightarrow> string list \<Rightarrow> filesystem \<Rightarrow> string list" where
  "DoFileSearch exts directories fs =
     concat (map (\<lambda>directory.
        case fs directory of
          None \<Rightarrow> []
        | Some entries \<Rightarrow>
            map (\<lambda>entry. directory @ DIR_SEP @ entry)
              (filter (\<lambda>entry. list_ex (\<lambda>ext. ends_with ext entry) exts) entries))
        directories)"

text \<open>
  Modelled from the spec: \<open>SplitPath\<close> (Common/StringUtil) is not under src/. Its
  second output, the only one \<open>GetShaders\<close> asks for, is the base file name without
  directory components or extension: what follows the last separator, up to the last dot
  of that part when it has one.
\<close>

definition SplitPath_filename :: "string \<Rightarrow> string" where
  "SplitPath_filename full_path =
     (let file = rev (takeWhile (\<lambda>c. c \<noteq> CHR ''/'') (rev full_path))
      in if CHR ''.'' \<in> set file
         then rev (tl (dropWhile (\<lambda>c. c \<noteq> CHR ''.'') (rev file)))
         else file)"

text \<open>The loop of \<open>GetShaders\<close>: one \<open>push_back\<close> for each path, in order.\<close>

fun GetShaders_loop :: "string list \<Rightarrow> string list \<Rightarrow> string list" where
  "GetShaders_loop [] result = result"
| "GetShaders_loop (path # paths) result =
     GetShaders_loop paths (result @ [SplitPath_filename path])"

definition GetShaders :: "file_env \<Rightarrow> string \<Rightarrow> string list" where
  "GetShaders env sub_dir =
     (let paths = DoFileSearch [''.glsl'']
                    [user_shaders_path env @ sub_dir,
                     sys_directory env @ SHADERS_DIR @ DIR_SEP @ sub_dir]
                    (files env)
      in GetShaders_loop paths [])"

text \<open>
  \<open>VideoBackend::InitBackendInfo\<close> (main.cpp, lines 110-134): fifteen assignments to
  fields of \<open>g_Config.backend_info\<close>, in the order of the source.
\<close>

definition InitBackendInfo :: "file_env \<Rightarrow> VideoConfig \<Rightarrow> VideoConfig" where
  "InitBackendInfo env c =
     c\<lparr>backend_info := (backend_info c)
        \<lparr>APIType := API_OPENGL,
         bSupportsExclusiveFullscreen := False,
         bSupportsOversizedViewports := True,
         bSupportsGeometryShaders := True,
         bSupports3DVision := False,
         bSupportsPostProcessing := True,
         bSupportsSSAA := True,
         bSupportsDualSourceBlend := True,
         bSupportsPrimitiveRestart := True,
         bSupportsPaletteConversion := True,
         bSupportsClipControl := True,
         Adapters := [],
         AAModes := [1, 2, 4, 8],
         PPShaders := GetShaders env '''',
         AnaglyphShaders := GetShaders env (ANAGLYPH_DIR @ DIR_SEP)\<rparr>\<rparr>"

section \<open>The GL interface and the backend's global state\<close>

text \<open>
  \<open>GLInterfaceMode\<close> and the interface class are declared in
  Common/GL/GLInterfaceBase.h. main.cpp reads the mode with \<open>GetMode\<close> and sets it with
  \<open>SetMode\<close>; the mode is all of the object that the model keeps.
\<close>

datatype GLInterfaceMode = MODE_DETECT | MODE_OPENGL | MODE_OPENGLES2 | MODE_OPENGLES3

record cInterfaceBase =
  s_opengl_mode :: GLInterfaceMode

definition GetMode :: "cInterfaceBase \<Rightarrow> GLInterfaceMode" where
  "GetMode i = s_opengl_mode i"

definition SetMode :: "GLInterfaceMode \<Rightarrow> cInterfaceBase \<Rightarrow> cInterfaceBase" where
  "SetMode m i = i\<lparr>s_opengl_mode := m\<rparr>"

text \<open>
  The calls that \<open>Initialize\<close> makes, recorded in the order in which they are made.
\<close>

datatype call =
    Call_InitBackendInfo
  | Call_InitializeShared
  | Call_InitInterface
  | Call_SetMode GLInterfaceMode
  | Call_Create nat
  | Call_CreateOffscreen

text \<open>
  The globals: \<open>g_Config\<close> and \<open>g_ActiveConfig\<close> (VideoConfig.h, lines 203-204), the
  pointer \<open>GLInterface\<close> (\<open>None\<close> is \<open>nullptr\<close>), and the record of calls.
\<close>

record globals =
  g_Config :: VideoConfig
  g_ActiveConfig :: VideoConfig
  GLInterface :: "cInterfaceBase option"
  calls :: "call list"

text \<open>
  The collaborators \<open>Initialize\<close> calls whose code is elsewhere: \<open>InitializeShared\<close>
  acts on the two configuration globals; \<open>InitInterface\<close> stores the interface
  object the host creates (or \<open>nullptr\<close>); \<open>Create\<close> and \<open>CreateOffscreen\<close> report
  whether the driver gave a context, and may change the interface object. A window
  handle is an address, with 0 for \<open>nullptr\<close>.
\<close>

record host =
  host_files :: file_env
  host_InitializeShared :: "VideoConfig \<times> VideoConfig \<Rightarrow> VideoConfig \<times> VideoConfig"
  host_InitInterface :: "cInterfaceBase option"
  host_Create :: "nat \<Rightarrow> cInterfaceBase \<Rightarrow> bool \<times> cInterfaceBase"
  host_CreateOffscreen :: "cInterfaceBase \<Rightarrow> bool \<times> cInterfaceBase"

datatype error = NullPointerDereference

subsection \<open>Names (main.cpp, lines 82-93)\<close>

definition GetName :: string where
  "GetName = ''OGL''"

definition GetDisplayName :: "cInterfaceBase option \<Rightarrow> string" where
  "GetDisplayName gl =
     (if gl \<noteq> None \<and> GetMode (the gl) = MODE_OPENGLES3 then ''OpenGLES'' else ''OpenGL'')"

subsection \<open>Initialization (main.cpp, lines 136-155)\<close>

definition do_InitBackendInfo :: "host \<Rightarrow> globals \<Rightarrow> globals" where
  "do_InitBackendInfo h s =
     s\<lparr>g_Config := InitBackendInfo (host_files h) (g_Config s),
       calls := calls s @ [Call_InitBackendInfo]\<rparr>"

definition do_InitializeShared :: "host \<Rightarrow> globals \<Rightarrow> globals" where
  "do_InitializeShared h s =
     (let (live, active) = host_InitializeShared h (g_Config s, g_ActiveConfig s)
      in s\<lparr>g_Config := live, g_ActiveConfig := active,
           calls := calls s @ [Call_InitializeShared]\<rparr>)"

definition do_InitInterface :: "host \<Rightarrow> globals \<Rightarrow> globals" where
  "do_InitInterface h s =
     s\<lparr>GLInterface := host_InitInterface h, calls := calls s @ [Call_InitInterface]\<rparr>"

definition Initialize :: "host \<Rightarrow> nat \<Rightarrow> globals \<Rightarrow> error + bool \<times> globals" where
  "Initialize h window_handle s0 =
     (let s1 = do_InitBackendInfo h s0;
          s2 = do_InitializeShared h s1;
          s3 = do_InitInterface h s2
      in case GLInterface s3 of
           None \<Rightarrow> Inl NullPointerDereference
         | Some i \<Rightarrow>
             (let i1 = SetMode MODE_DETECT i;
                  s4 = s3\<lparr>GLInterface := Some i1,
                          calls := calls s3 @ [Call_SetMode MODE_DETECT]\<rparr>
              in if window_handle \<noteq> 0
                 then (let (created, i2) = host_Create h window_handle i1;
                           s5 = s4\<lparr>GLInterface := Some i2,
                                   calls := calls s4 @ [Call_Create window_handle]\<rparr>
                       in if \<not> created then Inr (False, s5) else Inr (True, s5))
                 else (let (created, i2) = host_CreateOffscreen h i1;
                           s5 = s4\<lparr>GLInterface := Some i2,
                                   calls := calls s4 @ [Call_CreateOffscreen]\<rparr>
                       in if \<not> created then Inr (False, s5) else Inr (True, s5))))"

section \<open>The snapshot operation\<close>

text \<open>
  Modelled from the spec: \<open>UpdateActiveConfig\<close> is declared in VideoConfig.h
  (line 207, "called every frame") and defined in VideoConfig.cpp, which is not under
  src/. The spec's \<open>snapshot()\<close> copies every field from the live store into the
  active store: the structure assignment \<open>g_ActiveConfig = g_Config\<close>.
\<close>

definition UpdateActiveConfig :: "globals \<Rightarrow> globals" where
  "UpdateActiveConfig s = s\<lparr>g_ActiveConfig := g_Config s\<rparr>"

text \<open>
  What happens to the two stores over time: the user interface changes \<open>g_Config\<close> in
  any way (the header's opening comment), and the renderer takes snapshots.
\<close>

datatype store_op = Mutate "VideoConfig \<Rightarrow> VideoConfig" | Snapshot

fun apply_store_op :: "globals \<Rightarrow> store_op \<Rightarrow> globals" where
  "apply_store_op s (Mutate f) = s\<lparr>g_Config := f (g_Config s)\<rparr>"
| "apply_store_op s Snapshot = UpdateActiveConfig s"

definition run_store_ops :: "store_op list \<Rightarrow> globals \<Rightarrow> globals" where
  "run_store_ops ops s = foldl apply_store_op s ops"

section \<open>Concrete inputs\<close>

text \<open>
  A configuration with every switch off, every number zero and every list empty, and
  the global state that holds it in both stores before any interface exists.
\<close>

definition blank_backend_info :: backend_info_t where
  "blank_backend_info =
     \<lparr>APIType = API_NONE, Adapters = [], AAModes = [], PPShaders = [],
      bUseMinimalMipCount = False, bSupportsExclusiveFullscreen = False,
      bSupportsDualSourceBlend = False, bSupportsPrimitiveRestart = False,
      bSupportsOversizedViewports = False, bSupportsEarlyZ = False,
      bSupportsBindingLayout = False, bSupportsBBox = False,
      bSupportsGeometryShaders = False, bSupports3DVision = False,
      bSupportsPostProcessing = False, bSupportsSSAA = False,
      bSupportsPaletteConversion = False, bSupportsClipControl = False,
      AnaglyphShaders = []\<rparr>"

definition blank_config :: VideoConfig where
  "blank_config =
     \<lparr>bVSync = False, bFullscreen = False, bRunning = False, bWidescreenHack = False,
      iAspectRatio = 0, bCrop = False, bUseXFB = False, bUseRealXFB = False,
      iMultisampleMode = 0, iEFBScale = 0, bForceFiltering = False, iMaxAnisotropy = 0,
      sPostProcessingShader = [],
      bShowFPS = False, bOverlayStats = False, bOverlayProjStats = False,
      bTexFmtOverlayEnable = False, bTexFmtOverlayCenter = False,
      bShowEFBCopyRegions = False, bLogRenderTimeToFile = False,
      bWireFrame = False, bDstAlphaPass = False, bDisableFog = False,
      bDumpTextures = False, bHiresTextures = False, bDumpEFBTarget = False,
      bUseFFV1 = False, bFreeLook = False, bAnaglyphStereo = False,
      iAnaglyphStereoSeparation = 0, iAnaglyphFocalAngle = 0,
      bBorderlessFullscreen = False,
      bEFBAccessEnable = False, bPerfQueriesEnable = False,
      bEFBCopyEnable = False, bEFBCopyClearDisable = False, bEFBCopyCacheEnable = False,
      bEFBEmulateFormatChanges = False, bCopyEFBToTexture = False, bCopyEFBScaled = False,
      iSafeTextureCache_ColorSamples = 0, iPhackvalue = (0, 0, 0), sPhackvalue = ([], []),
      fAspectRatioHackW = 0, fAspectRatioHackH = 0,
      bEnablePixelLighting = False, bFastDepthCalc = False, iLog = 0, iSaveTargetId = 0,
      fScale = 0, fLeanBackAngle = 0,
      bAsynchronousTimewarp = False, bEnableVR = False, bLowPersistence = False,
      bDynamicPrediction = False, bOrientationTracking = False, bMagYawCorrection = False,
      bPositionTracking = False, bChromatic = False, bTimewarp = False, bVignette = False,
      bNoRestore = False, bFlipVertical = False, bSRGB = False, bOverdrive = False,
      bHqDistortion = False, iVRPlayer = 0, iMinExtraFrames = 0, iMaxExtraFrames = 0,
      fUnitsPerMetre = 0, fHudThickness = 0, fHudDistance = 0, fHud3DCloser = 0,
      fCameraForward = 0, fCameraPitch = 0, fAimDistance = 0, fScreenHeight = 0,
      fScreenThickness = 0, fScreenDistance = 0, fScreenRight = 0, fScreenUp = 0,
      fScreenPitch = 0, fTelescopeMaxFOV = 0,
      bDisable3D = False, bHudFullscreen = False, bHudOnTop = False,
      iTelescopeEye = 0, iMetroidPrime = 0, iSelectedLayer = 0, iFlashState = 0,
      iAdapter = 0, bEnableShaderDebugging = False,
      backend_info = blank_backend_info\<rparr>"

definition blank_globals :: globals where
  "blank_globals =
     \<lparr>g_Config = blank_config, g_ActiveConfig = blank_config,
      GLInterface = None, calls = []\<rparr>"

text \<open>
  Two shader directories as in the spec's example: the user directory holds
  \<open>foo.glsl\<close>, the system directory holds \<open>foo.glsl\<close> and \<open>bar.glsl\<close> (and a file
  that is not a shader).
\<close>

definition both_dirs :: file_env where
  "both_dirs =
     \<lparr>user_shaders_path = ''User/Shaders/'', sys_directory = ''Sys/'',
      files = map_of
        [(''User/Shaders/'', [''foo.glsl'']),
         (''Sys/Shaders/'', [''foo.glsl'', ''readme.txt'', ''bar.glsl''])]\<rparr>"

text \<open>The same two directories with the roles of user and system exchanged.\<close>

definition both_dirs_swapped :: file_env where
  "both_dirs_swapped =
     \<lparr>user_shaders_path = ''Sys/Shaders/'', sys_directory = ''User/'',
      files = map_of
        [(''User/Shaders/'', [''foo.glsl'']),
         (''Sys/Shaders/'', [''foo.glsl'', ''readme.txt'', ''bar.glsl''])]\<rparr>"

text \<open>Only the system directory exists; and only the user directory exists.\<close>

definition sys_dir_only :: file_env where
  "sys_dir_only =
     \<lparr>user_shaders_path = ''User/Shaders/'', sys_directory = ''Sys/'',
      files = map_of [(''Sys/Shaders/'', [''foo.glsl'', ''readme.txt'', ''bar.glsl''])]\<rparr>"

definition user_dir_only :: file_env where
  "user_dir_only =
     \<lparr>user_shaders_path = ''User/Shaders/'', sys_directory = ''Sys/'',
      files = map_of [(''User/Shaders/'', [''foo.glsl''])]\<rparr>"

text \<open>
  A host whose driver refuses a window context and grants an offscreen one, and the same
  host over other shader directories.
\<close>

definition window_refusing_host :: "file_env \<Rightarrow> host" where
  "window_refusing_host env =
     \<lparr>host_files = env,
      host_InitializeShared = (\<lambda>(live, active). (live\<lparr>bVSync := True\<rparr>, live\<lparr>bVSync := True\<rparr>)),
      host_InitInterface = Some \<lparr>s_opengl_mode = MODE_OPENGLES3\<rparr>,
      host_Create = (\<lambda>window_handle i. (False, i)),
      host_CreateOffscreen = (\<lambda>i. (True, i\<lparr>s_opengl_mode := MODE_OPENGL\<rparr>))\<rparr>"

text \<open>
  What the claims speak of: the shader files of a directory, and a file name without its
  extension.
\<close>

definition shader_files :: "filesystem \<Rightarrow> string \<Rightarrow> string list" where
  "shader_files fs directory =
     (case fs directory of
        None \<Rightarrow> []
      | Some entries \<Rightarrow> filter (ends_with ''.glsl'') entries)"

definition without_extension :: "string \<Rightarrow> string" where
  "without_extension name = take (length name - length ''.glsl'') name"

definition plain_names :: "filesystem \<Rightarrow> bool" where
  "plain_names fs = (\<forall>directory entries. fs directory = Some entries \<longrightarrow>
     (\<forall>entry \<in> set entries. CHR ''/'' \<notin> set entry))"

text \<open>
  Two starts of the backend in one process: the first while only the user directory
  exists, the second after the system directory has appeared. Both ask for an offscreen
  context.
\<close>

definition first_start :: "error + bool \<times> globals" where
  "first_start = Initialize (window_refusing_host user_dir_only) 0 blank_globals"

definition second_start :: "error + bool \<times> globals" where
  "second_start = Initialize (window_refusing_host both_dirs) 0 (snd (projr first_start))"

section \<open>The life of the backend\<close>

text \<open>
  What happens to the globals over the life of the process: the backend is started with
  \<open>Initialize\<close> (every start of the emulation, with the host and the directories
  as they are at that moment), and between starts the user interface changes
  \<open>g_Config\<close> and the renderer takes its snapshot at every frame. A start that
  dereferences a null interface ends the run.
\<close>

datatype backend_op = Do_Initialize host nat | Do_store store_op

fun apply_backend_op :: "globals \<Rightarrow> backend_op \<Rightarrow> error + globals" where
  "apply_backend_op s (Do_Initialize h window_handle) =
     (case Initialize h window_handle s of
        Inl e \<Rightarrow> Inl e
      | Inr (result, s') \<Rightarrow> Inr s')"
| "apply_backend_op s (Do_store x) = Inr (apply_store_op s x)"

fun run_backend_ops :: "backend_op list \<Rightarrow> globals \<Rightarrow> error + globals" where
  "run_backend_ops [] s = Inr s"
| "run_backend_ops (x # ops) s =
     (case apply_backend_op s x of
        Inl e \<Rightarrow> Inl e
      | Inr s' \<Rightarrow> run_backend_ops ops s')"

text \<open>The shader directories of the most recent start in a run, if there was one.\<close>

fun last_start_files :: "backend_op list \<Rightarrow> file_env option" where
  "last_start_files [] = None"
| "last_start_files (Do_Initialize h window_handle # ops) =
     (case last_start_files ops of
        None \<Rightarrow> Some (host_files h)
      | Some env \<Rightarrow> Some env)"
| "last_start_files (Do_store x # ops) = last_start_files ops"

text \<open>
  The code called by these operations that is not in main.cpp, \<open>InitializeShared\<close>
  and the changes the user interface makes, leaves \<open>backend_info\<close> alone.
\<close>

fun leaves_backend_info :: "backend_op \<Rightarrow> bool" where
  "leaves_backend_info (Do_Initialize h window_handle) =
     (\<forall>p. backend_info (fst (host_InitializeShared h p)) = backend_info (fst p))"
| "leaves_backend_info (Do_store (Mutate f)) = (\<forall>c. backend_info (f c) = backend_info c)"
| "leaves_backend_info (Do_store Snapshot) = True"

text \<open>
  A run of the backend: a start while only the user directory exists, a frame, a change
  of a setting by the user interface, a second start (whose window context is refused)
  after the system directory has appeared, and another frame.
\<close>

definition two_starts :: "backend_op list" where
  "two_starts =
     [Do_Initialize (window_refusing_host user_dir_only) 0,
      Do_store Snapshot,
      Do_store (Mutate (\<lambda>c. c\<lparr>bWireFrame := True\<rparr>)),
      Do_Initialize (window_refusing_host both_dirs) 1,
      Do_store Snapshot]"

section \<open>Derived queries\<close>

text \<open>
  C5. For every configuration: if \<open>bUseXFB\<close> and \<open>bUseRealXFB\<close> are both true, then
  \<open>RealXFBEnabled\<close> is true and \<open>VirtualXFBEnabled\<close> is false; if \<open>bUseXFB\<close> is
  false, both are false, whatever \<open>bUseRealXFB\<close> is.
\<close>

theorem XFB_queries:
  "(bUseXFB c \<and> bUseRealXFB c \<longrightarrow> RealXFBEnabled c \<and> \<not> VirtualXFBEnabled c) \<and>
   (\<not> bUseXFB c \<longrightarrow> \<not> RealXFBEnabled c \<and> \<not> VirtualXFBEnabled c)"
  by (simp add: RealXFBEnabled_def VirtualXFBEnabled_def)

theorem XFB_queries_witness:
  "bUseXFB (blank_config\<lparr>bUseXFB := True, bUseRealXFB := True\<rparr>) \<and>
   bUseRealXFB (blank_config\<lparr>bUseXFB := True, bUseRealXFB := True\<rparr>) \<and>
   RealXFBEnabled (blank_config\<lparr>bUseXFB := True, bUseRealXFB := True\<rparr>) \<and>
   \<not> VirtualXFBEnabled (blank_config\<lparr>bUseXFB := True, bUseRealXFB := True\<rparr>) \<and>
   \<not> bUseXFB (blank_config\<lparr>bUseRealXFB := True\<rparr>) \<and>
   \<not> RealXFBEnabled (blank_config\<lparr>bUseRealXFB := True\<rparr>) \<and>
   \<not> VirtualXFBEnabled (blank_config\<lparr>bUseRealXFB := True\<rparr>) \<and>
   \<not> bUseXFB blank_config \<and>
   \<not> RealXFBEnabled blank_config \<and>
   \<not> VirtualXFBEnabled blank_config"
  using XFB_queries [of "blank_config\<lparr>bUseXFB := True, bUseRealXFB := True\<rparr>"]
    XFB_queries [of "blank_config\<lparr>bUseRealXFB := True\<rparr>"]
    XFB_queries [of blank_config]
  by (simp add: blank_config_def)

text \<open>
  C6. For every configuration whose backend does not support exclusive fullscreen,
  \<open>ExclusiveFullscreenEnabled\<close> is false, for both values of
  \<open>bBorderlessFullscreen\<close>.
\<close>

theorem ExclusiveFullscreen_unsupported:
  assumes "\<not> bSupportsExclusiveFullscreen (backend_info c)"
  shows "\<not> ExclusiveFullscreenEnabled (c\<lparr>bBorderlessFullscreen := False\<rparr>) \<and>
         \<not> ExclusiveFullscreenEnabled (c\<lparr>bBorderlessFullscreen := True\<rparr>) \<and>
         \<not> ExclusiveFullscreenEnabled c"
  using assms by (simp add: ExclusiveFullscreenEnabled_def)

theorem ExclusiveFullscreen_unsupported_witness:
  "\<not> bSupportsExclusiveFullscreen (backend_info blank_config) \<and>
   \<not> ExclusiveFullscreenEnabled (blank_config\<lparr>bBorderlessFullscreen := False\<rparr>) \<and>
   \<not> ExclusiveFullscreenEnabled (blank_config\<lparr>bBorderlessFullscreen := True\<rparr>) \<and>
   \<not> ExclusiveFullscreenEnabled blank_config"
proof -
  have unsupported: "\<not> bSupportsExclusiveFullscreen (backend_info blank_config)"
    by (simp add: blank_config_def blank_backend_info_def)
  from ExclusiveFullscreen_unsupported [OF unsupported] unsupported
  show ?thesis by simp
qed

text \<open>
  C9. For every configuration, \<open>EFBCopiesToTextureEnabled\<close> and
  \<open>EFBCopiesToRamEnabled\<close> are never both true, and one of them is true exactly when
  \<open>bEFBCopyEnable\<close> is true; when it is, \<open>bCopyEFBToTexture\<close> decides which.
\<close>

theorem EFBCopies_partition:
  "\<not> (EFBCopiesToTextureEnabled c \<and> EFBCopiesToRamEnabled c) \<and>
   ((EFBCopiesToTextureEnabled c \<or> EFBCopiesToRamEnabled c) = bEFBCopyEnable c) \<and>
   (bEFBCopyEnable c \<longrightarrow>
      EFBCopiesToTextureEnabled c = bCopyEFBToTexture c \<and>
      EFBCopiesToRamEnabled c = (\<not> bCopyEFBToTexture c))"
  by (auto simp add: EFBCopiesToTextureEnabled_def EFBCopiesToRamEnabled_def)

theorem EFBCopies_partition_witness:
  "bEFBCopyEnable (blank_config\<lparr>bEFBCopyEnable := True\<rparr>) \<and>
   \<not> EFBCopiesToTextureEnabled (blank_config\<lparr>bEFBCopyEnable := True\<rparr>) \<and>
   EFBCopiesToRamEnabled (blank_config\<lparr>bEFBCopyEnable := True\<rparr>) \<and>
   bEFBCopyEnable (blank_config\<lparr>bEFBCopyEnable := True, bCopyEFBToTexture := True\<rparr>) \<and>
   EFBCopiesToTextureEnabled (blank_config\<lparr>bEFBCopyEnable := True, bCopyEFBToTexture := True\<rparr>) \<and>
   \<not> EFBCopiesToRamEnabled (blank_config\<lparr>bEFBCopyEnable := True, bCopyEFBToTexture := True\<rparr>)"
  using EFBCopies_partition [of "blank_config\<lparr>bEFBCopyEnable := True\<rparr>"]
    EFBCopies_partition [of "blank_config\<lparr>bEFBCopyEnable := True, bCopyEFBToTexture := True\<rparr>"]
  by (simp add: blank_config_def)

section \<open>The snapshot\<close>

lemma run_store_ops_snoc:
  "run_store_ops (ops @ [x]) s = apply_store_op (run_store_ops ops s) x"
  by (simp add: run_store_ops_def)

text \<open>
  C1. After any sequence of mutations of \<open>g_Config\<close> (and earlier snapshots) followed
  by a call of \<open>UpdateActiveConfig\<close>, the whole of \<open>g_ActiveConfig\<close>, and so every
  field of it, equals \<open>g_Config\<close> as it was at the call; the call leaves
  \<open>g_Config\<close> as it was.
\<close>

theorem UpdateActiveConfig_full_copy:
  "g_ActiveConfig (UpdateActiveConfig s) = g_Config s \<and>
   g_ActiveConfig (run_store_ops (ops @ [Snapshot]) s) = g_Config (run_store_ops ops s) \<and>
   g_Config (run_store_ops (ops @ [Snapshot]) s) = g_Config (run_store_ops ops s)"
  by (simp add: run_store_ops_snoc UpdateActiveConfig_def)

text \<open>
  C4. Two calls of \<open>UpdateActiveConfig\<close> in a row, with no mutation of \<open>g_Config\<close>
  between them, leave the state, and so \<open>g_ActiveConfig\<close>, as the first call left
  it.
\<close>

theorem UpdateActiveConfig_idempotent:
  "UpdateActiveConfig (UpdateActiveConfig s) = UpdateActiveConfig s \<and>
   g_ActiveConfig (run_store_ops (ops @ [Snapshot, Snapshot]) s) =
     g_ActiveConfig (run_store_ops (ops @ [Snapshot]) s)"
  by (simp add: run_store_ops_def UpdateActiveConfig_def)

section \<open>Names\<close>

text \<open>
  C10. \<open>GetName\<close> is "OGL". \<open>GetDisplayName\<close> is "OpenGLES" exactly when the
  interface pointer is not null and its mode is \<open>MODE_OPENGLES3\<close>, and "OpenGL" in
  every other case, a null pointer included.
\<close>

theorem backend_names:
  "GetName = ''OGL'' \<and>
   (GetDisplayName gl = ''OpenGLES'' \<longleftrightarrow> (\<exists>i. gl = Some i \<and> GetMode i = MODE_OPENGLES3)) \<and>
   (\<not> (\<exists>i. gl = Some i \<and> GetMode i = MODE_OPENGLES3) \<longrightarrow> GetDisplayName gl = ''OpenGL'') \<and>
   GetDisplayName None = ''OpenGL''"
  by (cases gl) (simp_all add: GetName_def GetDisplayName_def)

theorem backend_names_witness:
  "GetDisplayName (Some \<lparr>s_opengl_mode = MODE_OPENGLES3\<rparr>) = ''OpenGLES'' \<and>
   GetDisplayName (Some \<lparr>s_opengl_mode = MODE_OPENGLES2\<rparr>) = ''OpenGL'' \<and>
   GetDisplayName (Some \<lparr>s_opengl_mode = MODE_DETECT\<rparr>) = ''OpenGL'' \<and>
   GetDisplayName None = ''OpenGL''"
  using backend_names [of "Some \<lparr>s_opengl_mode = MODE_OPENGLES3\<rparr>"]
    backend_names [of "Some \<lparr>s_opengl_mode = MODE_OPENGLES2\<rparr>"]
    backend_names [of "Some \<lparr>s_opengl_mode = MODE_DETECT\<rparr>"]
    backend_names [of None]
  by (simp add: GetMode_def)

section \<open>Shader discovery\<close>

lemma GetShaders_loop_eq:
  "GetShaders_loop paths result = result @ map SplitPath_filename paths"
  by (induction paths arbitrary: result) simp_all

lemma ends_with_split:
  assumes "ends_with ext name"
  shows "name = take (length name - length ext) name @ ext"
proof -
  from assms have "drop (length name - length ext) name = ext"
    by (simp add: ends_with_def)
  then show ?thesis
    by (metis append_take_drop_id)
qed

lemma SplitPath_filename_of_entry:
  assumes plain: "CHR ''/'' \<notin> set entry"
    and ext: "ends_with ''.glsl'' entry"
  shows "SplitPath_filename (directory @ DIR_SEP @ entry) = without_extension entry"
proof -
  define stem where "stem = without_extension entry"
  have entry: "entry = stem @ ''.glsl''"
    using ends_with_split [OF ext] by (simp add: stem_def without_extension_def)
  have last_part: "rev (takeWhile (\<lambda>c. c \<noteq> CHR ''/'') (rev (directory @ DIR_SEP @ entry))) = entry"
    using plain by (simp add: DIR_SEP_def takeWhile_append)
  have dot: "CHR ''.'' \<in> set entry"
    by (subst entry) simp
  have "rev (tl (dropWhile (\<lambda>c. c \<noteq> CHR ''.'') (rev entry))) = stem"
    by (subst entry) simp
  with last_part dot show ?thesis
    by (simp add: SplitPath_filename_def stem_def)
qed

lemma names_of_directory:
  assumes "plain_names fs"
  shows "map SplitPath_filename
           (case fs directory of
              None \<Rightarrow> []
            | Some entries \<Rightarrow>
                map (\<lambda>entry. directory @ DIR_SEP @ entry)
                  (filter (\<lambda>entry. list_ex (\<lambda>ext. ends_with ext entry) [''.glsl'']) entries))
         = map without_extension (shader_files fs directory)"
proof (cases "fs directory")
  case None
  then show ?thesis by (simp add: shader_files_def)
next
  case (Some entries)
  with assms have "\<forall>entry \<in> set entries. CHR ''/'' \<notin> set entry"
    by (simp add: plain_names_def)
  with Some show ?thesis
    by (simp add: shader_files_def SplitPath_filename_of_entry)
qed

lemma GetShaders_eq:
  assumes "plain_names (files env)"
  shows "GetShaders env sub_dir =
           map without_extension (shader_files (files env) (user_shaders_path env @ sub_dir)) @
           map without_extension
             (shader_files (files env) (sys_directory env @ SHADERS_DIR @ DIR_SEP @ sub_dir))"
  using names_of_directory [OF assms]
  by (simp add: GetShaders_def GetShaders_loop_eq DoFileSearch_def)

lemma plain_names_both_dirs: "plain_names (files both_dirs)"
  by (auto simp add: plain_names_def both_dirs_def split: if_splits)

text \<open>
  C2, as stated, fails. With \<open>foo.glsl\<close> in the user directory and \<open>foo.glsl\<close> and
  \<open>bar.glsl\<close> in the system directory, the list has "foo" twice, whichever of the two
  directories is searched first.
\<close>

theorem GetShaders_duplicates:
  "GetShaders both_dirs '''' = [''foo'', ''foo'', ''bar''] \<and>
   GetShaders both_dirs_swapped '''' = [''foo'', ''bar'', ''foo''] \<and>
   PPShaders (backend_info (InitBackendInfo both_dirs blank_config)) = [''foo'', ''foo'', ''bar''] \<and>
   \<not> distinct (GetShaders both_dirs '''') \<and>
   \<not> distinct (GetShaders both_dirs_swapped '''')"
  by (simp add: InitBackendInfo_def GetShaders_def DoFileSearch_def both_dirs_def
      both_dirs_swapped_def SHADERS_DIR_def DIR_SEP_def ends_with_def SplitPath_filename_def)

text \<open>
  C2, amended. When the directories list plain file names, the list produced by
  \<open>GetShaders\<close>, which \<open>InitBackendInfo\<close> stores into \<open>PPShaders\<close>, holds the base
  name, without directory or extension, of each .glsl file of the user directory and of
  each .glsl file of the system directory, once for each file found: a name that is in
  both directories is listed twice. As a set the names are those of the .glsl files of
  the two directories.
\<close>

theorem GetShaders_once_per_file:
  assumes "plain_names (files env)"
  shows "mset (GetShaders env sub_dir) =
           mset (map without_extension
                  (shader_files (files env) (user_shaders_path env @ sub_dir))) +
           mset (map without_extension
                  (shader_files (files env) (sys_directory env @ SHADERS_DIR @ DIR_SEP @ sub_dir)))
         \<and> set (GetShaders env sub_dir) =
           without_extension `
             (set (shader_files (files env) (user_shaders_path env @ sub_dir)) \<union>
              set (shader_files (files env) (sys_directory env @ SHADERS_DIR @ DIR_SEP @ sub_dir)))
         \<and> PPShaders (backend_info (InitBackendInfo env c)) = GetShaders env ''''"
  by (simp add: GetShaders_eq [OF assms] InitBackendInfo_def image_Un)

theorem GetShaders_once_per_file_witness:
  "plain_names (files both_dirs) \<and>
   mset (GetShaders both_dirs '''') = {#''foo'', ''foo'', ''bar''#} \<and>
   set (GetShaders both_dirs '''') = {''foo'', ''bar''} \<and>
   PPShaders (backend_info (InitBackendInfo both_dirs blank_config)) = GetShaders both_dirs ''''"
proof -
  have shaders: "shader_files (files both_dirs) ''User/Shaders/'' = [''foo.glsl'']"
    "shader_files (files both_dirs) ''Sys/Shaders/'' = [''foo.glsl'', ''bar.glsl'']"
    by (simp_all add: shader_files_def both_dirs_def ends_with_def)
  from GetShaders_once_per_file [OF plain_names_both_dirs, of "[]" blank_config]
  show ?thesis
    using plain_names_both_dirs shaders
    by (simp add: both_dirs_def SHADERS_DIR_def DIR_SEP_def without_extension_def insert_commute)
qed

lemma plain_names_sys_dir_only: "plain_names (files sys_dir_only)"
  by (auto simp add: plain_names_def sys_dir_only_def split: if_splits)

lemma plain_names_user_dir_only: "plain_names (files user_dir_only)"
  by (auto simp add: plain_names_def user_dir_only_def split: if_splits)

text \<open>
  C7. When one of the two shader directories is missing, \<open>GetShaders\<close> still returns a
  list, and so does the capability report of \<open>InitBackendInfo\<close>: the missing
  directory contributes nothing, and the list holds exactly the names of the .glsl files
  of the directory that exists.
\<close>

theorem GetShaders_missing_directory:
  assumes "plain_names (files env)"
  shows "(files env (user_shaders_path env @ sub_dir) = None \<longrightarrow>
            mset (GetShaders env sub_dir) =
              mset (map without_extension
                (shader_files (files env) (sys_directory env @ SHADERS_DIR @ DIR_SEP @ sub_dir))))
       \<and> (files env (sys_directory env @ SHADERS_DIR @ DIR_SEP @ sub_dir) = None \<longrightarrow>
            mset (GetShaders env sub_dir) =
              mset (map without_extension
                (shader_files (files env) (user_shaders_path env @ sub_dir))))
       \<and> (files env (user_shaders_path env) = None \<longrightarrow>
            mset (PPShaders (backend_info (InitBackendInfo env c))) =
              mset (map without_extension
                (shader_files (files env) (sys_directory env @ SHADERS_DIR @ DIR_SEP))))
       \<and> (files env (sys_directory env @ SHADERS_DIR @ DIR_SEP) = None \<longrightarrow>
            mset (PPShaders (backend_info (InitBackendInfo env c))) =
              mset (map without_extension (shader_files (files env) (user_shaders_path env))))"
  by (simp add: GetShaders_eq [OF assms] InitBackendInfo_def shader_files_def)

theorem GetShaders_missing_directory_witness:
  "plain_names (files sys_dir_only) \<and>
   files sys_dir_only ''User/Shaders/'' = None \<and>
   mset (PPShaders (backend_info (InitBackendInfo sys_dir_only blank_config))) =
     {#''foo'', ''bar''#} \<and>
   plain_names (files user_dir_only) \<and>
   files user_dir_only ''Sys/Shaders/'' = None \<and>
   mset (PPShaders (backend_info (InitBackendInfo user_dir_only blank_config))) = {#''foo''#}"
proof -
  have sys: "files sys_dir_only ''User/Shaders/'' = None"
    "shader_files (files sys_dir_only) ''Sys/Shaders/'' = [''foo.glsl'', ''bar.glsl'']"
    by (simp_all add: shader_files_def sys_dir_only_def ends_with_def)
  have user: "files user_dir_only ''Sys/Shaders/'' = None"
    "shader_files (files user_dir_only) ''User/Shaders/'' = [''foo.glsl'']"
    by (simp_all add: shader_files_def user_dir_only_def ends_with_def)
  from GetShaders_missing_directory [OF plain_names_sys_dir_only, of "[]" blank_config]
    GetShaders_missing_directory [OF plain_names_user_dir_only, of "[]" blank_config]
  show ?thesis
    using plain_names_sys_dir_only plain_names_user_dir_only sys user
    by (simp add: sys_dir_only_def user_dir_only_def SHADERS_DIR_def DIR_SEP_def
        without_extension_def)
qed

section \<open>Initialization\<close>

text \<open>
  C8. When the host provides an interface object, \<open>Initialize\<close> returns, and it returns
  false exactly when the creation of the GL interface fails: \<open>Create\<close> for a window
  handle that is not null, \<open>CreateOffscreen\<close> for a null one. In every such call,
  the failing ones included, \<open>InitBackendInfo\<close> and \<open>InitializeShared\<close> have run,
  in this order, before the creation is attempted: \<open>g_Config\<close> is what
  \<open>InitializeShared\<close> made of the configuration that \<open>InitBackendInfo\<close> populated,
  so that \<open>backend_info\<close> is populated whenever \<open>InitializeShared\<close> leaves it
  alone.
\<close>

theorem Initialize_result:
  assumes "host_InitInterface h = Some i"
  shows "\<exists>s'. Initialize h window_handle s =
             Inr (if window_handle \<noteq> 0
                  then fst (host_Create h window_handle (SetMode MODE_DETECT i))
                  else fst (host_CreateOffscreen h (SetMode MODE_DETECT i)), s')
         \<and> calls s' = calls s @
             [Call_InitBackendInfo, Call_InitializeShared, Call_InitInterface,
              Call_SetMode MODE_DETECT,
              if window_handle \<noteq> 0 then Call_Create window_handle else Call_CreateOffscreen]
         \<and> g_Config s' =
             fst (host_InitializeShared h
                    (InitBackendInfo (host_files h) (g_Config s), g_ActiveConfig s))
         \<and> ((\<forall>p. backend_info (fst (host_InitializeShared h p)) = backend_info (fst p)) \<longrightarrow>
              backend_info (g_Config s') =
                backend_info (InitBackendInfo (host_files h) (g_Config s)) \<and>
              PPShaders (backend_info (g_Config s')) = GetShaders (host_files h) '''')"
proof -
  obtain live active where shared:
    "host_InitializeShared h (InitBackendInfo (host_files h) (g_Config s), g_ActiveConfig s)
       = (live, active)"
    by (cases "host_InitializeShared h
                 (InitBackendInfo (host_files h) (g_Config s), g_ActiveConfig s)")
  have populated: "PPShaders (backend_info (InitBackendInfo (host_files h) (g_Config s)))
      = GetShaders (host_files h) ''''"
    by (simp add: InitBackendInfo_def)
  have kept: "(\<forall>p. backend_info (fst (host_InitializeShared h p)) = backend_info (fst p)) \<longrightarrow>
      backend_info live = backend_info (InitBackendInfo (host_files h) (g_Config s))"
  proof
    assume "\<forall>p. backend_info (fst (host_InitializeShared h p)) = backend_info (fst p)"
    then have "backend_info (fst (host_InitializeShared h
                 (InitBackendInfo (host_files h) (g_Config s), g_ActiveConfig s)))
               = backend_info (InitBackendInfo (host_files h) (g_Config s))"
      by simp
    with shared show
      "backend_info live = backend_info (InitBackendInfo (host_files h) (g_Config s))"
      by simp
  qed
  show ?thesis
  proof (cases "window_handle \<noteq> 0")
    case True
    obtain created i2 where c: "host_Create h window_handle (SetMode MODE_DETECT i) = (created, i2)"
      by (cases "host_Create h window_handle (SetMode MODE_DETECT i)")
    from True assms shared c kept populated show ?thesis
      by (simp add: Initialize_def do_InitBackendInfo_def do_InitializeShared_def
          do_InitInterface_def Let_def)
  next
    case False
    obtain created i2 where c: "host_CreateOffscreen h (SetMode MODE_DETECT i) = (created, i2)"
      by (cases "host_CreateOffscreen h (SetMode MODE_DETECT i)")
    from False assms shared c kept populated show ?thesis
      by (simp add: Initialize_def do_InitBackendInfo_def do_InitializeShared_def
          do_InitInterface_def Let_def)
  qed
qed

theorem Initialize_result_witness:
  "host_InitInterface (window_refusing_host both_dirs) = Some \<lparr>s_opengl_mode = MODE_OPENGLES3\<rparr> \<and>
   (\<exists>s'. Initialize (window_refusing_host both_dirs) 1 blank_globals = Inr (False, s') \<and>
      calls s' = [Call_InitBackendInfo, Call_InitializeShared, Call_InitInterface,
                  Call_SetMode MODE_DETECT, Call_Create 1] \<and>
      PPShaders (backend_info (g_Config s')) = [''foo'', ''foo'', ''bar'']) \<and>
   (\<exists>s'. Initialize (window_refusing_host both_dirs) 0 blank_globals = Inr (True, s') \<and>
      calls s' = [Call_InitBackendInfo, Call_InitializeShared, Call_InitInterface,
                  Call_SetMode MODE_DETECT, Call_CreateOffscreen] \<and>
      PPShaders (backend_info (g_Config s')) = [''foo'', ''foo'', ''bar''])"
proof -
  have iface: "host_InitInterface (window_refusing_host both_dirs)
      = Some \<lparr>s_opengl_mode = MODE_OPENGLES3\<rparr>"
    by (simp add: window_refusing_host_def)
  have shared: "\<forall>p. backend_info (fst (host_InitializeShared (window_refusing_host both_dirs) p))
      = backend_info (fst p)"
    by (simp add: window_refusing_host_def split_beta)
  have files: "host_files (window_refusing_host both_dirs) = both_dirs"
    by (simp add: window_refusing_host_def)
  have shaders: "GetShaders both_dirs '''' = [''foo'', ''foo'', ''bar'']"
    by (simp add: GetShaders_def DoFileSearch_def both_dirs_def SHADERS_DIR_def DIR_SEP_def
        ends_with_def SplitPath_filename_def)
  have create: "fst (host_Create (window_refusing_host both_dirs) w x) = False"
    "fst (host_CreateOffscreen (window_refusing_host both_dirs) x) = True" for w x
    by (simp_all add: window_refusing_host_def)
  have start: "calls blank_globals = []"
    by (simp add: blank_globals_def)
  from Initialize_result [OF iface, of 1 blank_globals]
    Initialize_result [OF iface, of 0 blank_globals]
  show ?thesis
    using iface shared
    by (auto simp add: files shaders create start)
qed

text \<open>
  C3, as stated, fails. The backend is started twice in one process, and a shader
  directory appears between the two starts: the second \<open>Initialize\<close> runs
  \<open>InitBackendInfo\<close> again and writes another \<open>PPShaders\<close> into \<open>backend_info\<close>.
\<close>

theorem backend_info_rewritten:
  "\<not> isl first_start \<and> \<not> isl second_start \<and>
   PPShaders (backend_info (g_Config (snd (projr first_start)))) = [''foo''] \<and>
   PPShaders (backend_info (g_Config (snd (projr second_start)))) = [''foo'', ''foo'', ''bar''] \<and>
   backend_info (g_Config (snd (projr second_start))) \<noteq>
     backend_info (g_Config (snd (projr first_start)))"
proof -
  have shaders: "GetShaders user_dir_only '''' = [''foo'']"
    "GetShaders both_dirs '''' = [''foo'', ''foo'', ''bar'']"
    by (simp_all add: GetShaders_def DoFileSearch_def both_dirs_def user_dir_only_def
        SHADERS_DIR_def DIR_SEP_def ends_with_def SplitPath_filename_def)
  have first: "\<not> isl first_start"
    "PPShaders (backend_info (g_Config (snd (projr first_start)))) = [''foo'']"
    by (simp_all add: first_start_def Initialize_def do_InitBackendInfo_def
        do_InitializeShared_def do_InitInterface_def window_refusing_host_def
        InitBackendInfo_def shaders Let_def)
  have second: "\<not> isl second_start"
    "PPShaders (backend_info (g_Config (snd (projr second_start)))) = [''foo'', ''foo'', ''bar'']"
    by (simp_all add: second_start_def Initialize_def do_InitBackendInfo_def
        do_InitializeShared_def do_InitInterface_def window_refusing_host_def
        InitBackendInfo_def shaders Let_def split_beta)
  from first second show ?thesis
    by auto
qed


lemma Initialize_g_Config:
  assumes "Initialize h window_handle s = Inr (result, s')"
  shows "g_Config s' =
           fst (host_InitializeShared h
                  (InitBackendInfo (host_files h) (g_Config s), g_ActiveConfig s))"
  using assms
  by (auto simp add: Initialize_def do_InitBackendInfo_def do_InitializeShared_def
      do_InitInterface_def Let_def split_beta split: option.splits if_splits)

lemma InitBackendInfo_over:
  assumes "backend_info c' = backend_info (InitBackendInfo env' c)"
  shows "backend_info (InitBackendInfo env c') = backend_info (InitBackendInfo env c)"
  using assms by (simp add: InitBackendInfo_def)

lemma InitBackendInfo_cong:
  assumes "backend_info c' = backend_info c"
  shows "backend_info (InitBackendInfo env c') = backend_info (InitBackendInfo env c)"
  using assms by (simp add: InitBackendInfo_def)

lemma apply_backend_op_backend_info:
  assumes step: "apply_backend_op s x = Inr s'"
    and frame: "leaves_backend_info x"
  shows "backend_info (g_Config s') =
           (case last_start_files [x] of
              None \<Rightarrow> backend_info (g_Config s)
            | Some env \<Rightarrow> backend_info (InitBackendInfo env (g_Config s)))"
proof (cases x)
  case (Do_Initialize h window_handle)
  with step obtain result where init: "Initialize h window_handle s = Inr (result, s')"
    by (auto split: sum.splits)
  from frame Do_Initialize
  have "backend_info (fst (host_InitializeShared h
          (InitBackendInfo (host_files h) (g_Config s), g_ActiveConfig s)))
        = backend_info (InitBackendInfo (host_files h) (g_Config s))"
    by simp
  with Initialize_g_Config [OF init] Do_Initialize show ?thesis
    by simp
next
  case (Do_store y)
  with step frame show ?thesis
    by (cases y) (auto simp add: UpdateActiveConfig_def)
qed

lemma run_backend_ops_backend_info:
  assumes "run_backend_ops ops s = Inr s'"
    and "\<forall>x \<in> set ops. leaves_backend_info x"
  shows "backend_info (g_Config s') =
           (case last_start_files ops of
              None \<Rightarrow> backend_info (g_Config s)
            | Some env \<Rightarrow> backend_info (InitBackendInfo env (g_Config s)))"
  using assms
proof (induction ops arbitrary: s)
  case Nil
  then show ?case by simp
next
  case (Cons x ops)
  from Cons.prems(1) obtain s1 where step: "apply_backend_op s x = Inr s1"
    and rest: "run_backend_ops ops s1 = Inr s'"
    by (auto split: sum.splits)
  from Cons.prems(2) have frame: "leaves_backend_info x"
    and frames: "\<forall>y \<in> set ops. leaves_backend_info y"
    by simp_all
  note head = apply_backend_op_backend_info [OF step frame]
  note tail = Cons.IH [OF rest frames]
  show ?case
  proof (cases x)
    case (Do_Initialize h window_handle)
    with head have s1: "backend_info (g_Config s1)
        = backend_info (InitBackendInfo (host_files h) (g_Config s))"
      by simp
    show ?thesis
    proof (cases "last_start_files ops")
      case None
      with tail s1 Do_Initialize show ?thesis by simp
    next
      case (Some env)
      with tail InitBackendInfo_over [OF s1, of env] Do_Initialize show ?thesis by simp
    qed
  next
    case (Do_store y)
    with head have s1: "backend_info (g_Config s1) = backend_info (g_Config s)"
      by simp
    show ?thesis
    proof (cases "last_start_files ops")
      case None
      with tail s1 Do_store show ?thesis by simp
    next
      case (Some env)
      with tail InitBackendInfo_cong [OF s1, of env] Do_store show ?thesis by simp
    qed
  qed
qed

lemma Initialize_window_refusing_host:
  "\<exists>s'. Initialize (window_refusing_host env) window_handle s = Inr (window_handle = 0, s')"
  by (simp add: Initialize_def do_InitBackendInfo_def do_InitializeShared_def
      do_InitInterface_def window_refusing_host_def Let_def split_beta)

lemma two_starts_run: "\<not> isl (run_backend_ops two_starts blank_globals)"
proof -
  obtain s1 where first: "Initialize (window_refusing_host user_dir_only) 0 blank_globals
      = Inr (True, s1)"
    using Initialize_window_refusing_host [of user_dir_only 0 blank_globals] by auto
  obtain s2 where second: "Initialize (window_refusing_host both_dirs) 1
      (s1\<lparr>g_ActiveConfig := g_Config s1, g_Config := (g_Config s1)\<lparr>bWireFrame := True\<rparr>\<rparr>)
      = Inr (False, s2)"
    using Initialize_window_refusing_host [of both_dirs 1] by auto
  from first second show ?thesis
    by (simp add: two_starts_def UpdateActiveConfig_def)
qed

lemma two_starts_leave_backend_info: "\<forall>x \<in> set two_starts. leaves_backend_info x"
  by (simp add: two_starts_def window_refusing_host_def split_beta)

text \<open>
  C3, amended. After backend initialization has populated it, the \<open>backend_info\<close> of
  \<open>g_Config\<close> is written again by every later call of \<open>Initialize\<close> and by nothing
  else of what is modelled here. Every call of \<open>Initialize\<close> that returns has run
  \<open>InitBackendInfo\<close> on \<open>g_Config\<close> and then \<open>InitializeShared\<close>.
  \<open>InitBackendInfo\<close> assigns fifteen fields of \<open>backend_info\<close>: the API type,
  ten support flags, the empty adapter list, the sample counts 1, 2, 4, 8, and the two
  shader lists read from the shader directories as they are at that call; it leaves the
  other four fields of \<open>backend_info\<close> and the rest of the configuration as they
  were. Over any sequence of starts, snapshots and changes by the user interface that
  runs to its end, in which \<open>InitializeShared\<close> and the user interface leave
  \<open>backend_info\<close> alone, \<open>backend_info\<close> is in the end exactly what
  \<open>InitBackendInfo\<close> wrote at the most recent start, from the directories of that
  start, and it is what it was at the beginning when there was no start: no snapshot
  writes it. What the renderer overwrites later (the comment at main.cpp, line 120) is
  outside these operations.
\<close>

theorem backend_info_written_at_start_only:
  "(Initialize h window_handle s = Inr (result, s1) \<longrightarrow>
      g_Config s1 =
        fst (host_InitializeShared h
               (InitBackendInfo (host_files h) (g_Config s), g_ActiveConfig s)))
   \<and> InitBackendInfo env c = c\<lparr>backend_info := backend_info (InitBackendInfo env c)\<rparr>
   \<and> APIType (backend_info (InitBackendInfo env c)) = API_OPENGL
   \<and> \<not> bSupportsExclusiveFullscreen (backend_info (InitBackendInfo env c))
   \<and> bSupportsOversizedViewports (backend_info (InitBackendInfo env c))
   \<and> bSupportsGeometryShaders (backend_info (InitBackendInfo env c))
   \<and> \<not> bSupports3DVision (backend_info (InitBackendInfo env c))
   \<and> bSupportsPostProcessing (backend_info (InitBackendInfo env c))
   \<and> bSupportsSSAA (backend_info (InitBackendInfo env c))
   \<and> bSupportsDualSourceBlend (backend_info (InitBackendInfo env c))
   \<and> bSupportsPrimitiveRestart (backend_info (InitBackendInfo env c))
   \<and> bSupportsPaletteConversion (backend_info (InitBackendInfo env c))
   \<and> bSupportsClipControl (backend_info (InitBackendInfo env c))
   \<and> Adapters (backend_info (InitBackendInfo env c)) = []
   \<and> AAModes (backend_info (InitBackendInfo env c)) = [1, 2, 4, 8]
   \<and> PPShaders (backend_info (InitBackendInfo env c)) = GetShaders env ''''
   \<and> AnaglyphShaders (backend_info (InitBackendInfo env c)) =
       GetShaders env (ANAGLYPH_DIR @ DIR_SEP)
   \<and> bUseMinimalMipCount (backend_info (InitBackendInfo env c)) =
       bUseMinimalMipCount (backend_info c)
   \<and> bSupportsEarlyZ (backend_info (InitBackendInfo env c)) = bSupportsEarlyZ (backend_info c)
   \<and> bSupportsBindingLayout (backend_info (InitBackendInfo env c)) =
       bSupportsBindingLayout (backend_info c)
   \<and> bSupportsBBox (backend_info (InitBackendInfo env c)) = bSupportsBBox (backend_info c)
   \<and> (run_backend_ops ops s = Inr s' \<and> (\<forall>x \<in> set ops. leaves_backend_info x) \<longrightarrow>
        backend_info (g_Config s') =
          (case last_start_files ops of
             None \<Rightarrow> backend_info (g_Config s)
           | Some env \<Rightarrow> backend_info (InitBackendInfo env (g_Config s))))"
proof -
  have start: "Initialize h window_handle s = Inr (result, s1) \<longrightarrow>
      g_Config s1 =
        fst (host_InitializeShared h
               (InitBackendInfo (host_files h) (g_Config s), g_ActiveConfig s))"
    using Initialize_g_Config by blast
  have run: "run_backend_ops ops s = Inr s' \<and> (\<forall>x \<in> set ops. leaves_backend_info x) \<longrightarrow>
        backend_info (g_Config s') =
          (case last_start_files ops of
             None \<Rightarrow> backend_info (g_Config s)
           | Some env \<Rightarrow> backend_info (InitBackendInfo env (g_Config s)))"
    using run_backend_ops_backend_info by blast
  have fields: "InitBackendInfo env c = c\<lparr>backend_info := backend_info (InitBackendInfo env c)\<rparr>"
    by (simp add: InitBackendInfo_def)
  from start run show ?thesis
    by (simp add: fields [symmetric]) (simp add: InitBackendInfo_def)
qed

theorem backend_info_written_at_start_only_witness:
  "(\<exists>s1. Initialize (window_refusing_host both_dirs) 1 blank_globals = Inr (False, s1) \<and>
      g_Config s1 = (InitBackendInfo both_dirs blank_config)\<lparr>bVSync := True\<rparr>) \<and>
   list_all leaves_backend_info two_starts \<and>
   last_start_files two_starts = Some both_dirs \<and>
   (\<exists>s'. run_backend_ops two_starts blank_globals = Inr s' \<and>
      backend_info (g_Config s') = backend_info (InitBackendInfo both_dirs blank_config) \<and>
      PPShaders (backend_info (g_Config s')) = [''foo'', ''foo'', ''bar''])"
proof -
  obtain s1 where start: "Initialize (window_refusing_host both_dirs) 1 blank_globals
      = Inr (False, s1)"
    using Initialize_window_refusing_host [of both_dirs 1 blank_globals] by auto
  obtain s' where run: "run_backend_ops two_starts blank_globals = Inr s'"
    using two_starts_run by (cases "run_backend_ops two_starts blank_globals") auto
  have last: "last_start_files two_starts = Some both_dirs"
    by (simp add: two_starts_def window_refusing_host_def)
  have shaders: "GetShaders both_dirs '''' = [''foo'', ''foo'', ''bar'']"
    by (simp add: GetShaders_def DoFileSearch_def both_dirs_def SHADERS_DIR_def DIR_SEP_def
        ends_with_def SplitPath_filename_def)
  have blank: "g_Config blank_globals = blank_config" "g_ActiveConfig blank_globals = blank_config"
    by (simp_all add: blank_globals_def)
  have shared: "fst (host_InitializeShared (window_refusing_host both_dirs) (live, active))
      = live\<lparr>bVSync := True\<rparr>" for live active
    by (simp add: window_refusing_host_def)
  have files: "host_files (window_refusing_host both_dirs) = both_dirs"
    by (simp add: window_refusing_host_def)
  from backend_info_written_at_start_only
    [where h = "window_refusing_host both_dirs" and window_handle = 1 and s = blank_globals
      and result = False and ?s1.0 = s1 and env = both_dirs and c = blank_config
      and ops = two_starts and s' = s']
  show ?thesis
    using start run two_starts_leave_backend_info last
    by (simp add: shaders blank shared files list_all_iff)
qed

end
